theory Spec2Isabelle
  imports Main
begin

section \<open>JSON values and the Python operations the client applies to them\<close>

text \<open>
  Everything the client receives is the result of \<open>response.json()\<close> or
  \<open>json.loads\<close>: a JSON value. A Python \<open>str\<close> is kept as its UTF-8 bytes
  (\<open>startswith\<close> and substring search agree on code points and on bytes), a
  \<open>dict\<close> as an association list read with \<open>map_of\<close>. A JSON float behaves,
  in every operation used here, like an integer of the same truthiness, so numbers
  are integers.
\<close>

datatype json =
    JNull
  | JBool bool
  | JNum int
  | JStr string
  | JArr "json list"
  | JObj "(string \<times> json) list"

text \<open>
  The exceptions the code can meet. \<open>Exception\<close> carries the message of a
  \<open>raise Exception(...)\<close> or of a failed transport call.
\<close>

datatype exn =
    TypeError
  | KeyError
  | AttributeError
  | IndexError
  | JSONDecodeError
  | MarkupError
  | NotRenderableError
  | Exception string

text \<open>\<open>str(e)\<close>: only the fact that it is a string matters to the client.\<close>

fun str_exn :: "exn \<Rightarrow> string" where
  "str_exn TypeError = ''TypeError''"
| "str_exn KeyError = ''KeyError''"
| "str_exn AttributeError = ''AttributeError''"
| "str_exn IndexError = ''IndexError''"
| "str_exn JSONDecodeError = ''JSONDecodeError''"
| "str_exn MarkupError = ''MarkupError''"
| "str_exn NotRenderableError = ''NotRenderableError''"
| "str_exn (Exception m) = m"

text \<open>\<open>s.startswith(m)\<close> on two strings.\<close>

definition startswith :: "string \<Rightarrow> string \<Rightarrow> bool" where
  "startswith s m = (take (length m) s = m)"

text \<open>\<open>sub in s\<close> on two strings: substring search.\<close>

fun str_contains :: "string \<Rightarrow> string \<Rightarrow> bool" where
  "str_contains sub [] = (sub = [])"
| "str_contains sub (c # cs) = (startswith (c # cs) sub \<or> str_contains sub cs)"

text \<open>Truthiness, as \<open>if x:\<close>, \<open>x or y\<close> and \<open>not x\<close> read it.\<close>

fun py_truthy :: "json \<Rightarrow> bool" where
  "py_truthy JNull = False"
| "py_truthy (JBool b) = b"
| "py_truthy (JNum n) = (n \<noteq> 0)"
| "py_truthy (JStr s) = (s \<noteq> [])"
| "py_truthy (JArr xs) = (xs \<noteq> [])"
| "py_truthy (JObj kvs) = (kvs \<noteq> [])"

text \<open>\<open>key in x\<close> for a string key: dict membership, list membership, substring;
  a \<open>TypeError\<close> on anything else.\<close>

fun py_in :: "string \<Rightarrow> json \<Rightarrow> exn + bool" where
  "py_in k (JObj kvs) = Inr (map_of kvs k \<noteq> None)"
| "py_in k (JArr xs) = Inr (JStr k \<in> set xs)"
| "py_in k (JStr s) = Inr (str_contains k s)"
| "py_in k JNull = Inl TypeError"
| "py_in k (JBool b) = Inl TypeError"
| "py_in k (JNum n) = Inl TypeError"

text \<open>\<open>x[key]\<close> for a string key.\<close>

fun py_getitem :: "json \<Rightarrow> string \<Rightarrow> exn + json" where
  "py_getitem (JObj kvs) k = (case map_of kvs k of None \<Rightarrow> Inl KeyError | Some v \<Rightarrow> Inr v)"
| "py_getitem (JArr xs) k = Inl TypeError"
| "py_getitem (JStr s) k = Inl TypeError"
| "py_getitem JNull k = Inl TypeError"
| "py_getitem (JBool b) k = Inl TypeError"
| "py_getitem (JNum n) k = Inl TypeError"

text \<open>\<open>x[0]\<close>.\<close>

fun py_getitem0 :: "json \<Rightarrow> exn + json" where
  "py_getitem0 (JArr xs) = (case xs of [] \<Rightarrow> Inl IndexError | x # _ \<Rightarrow> Inr x)"
| "py_getitem0 (JStr s) = (case s of [] \<Rightarrow> Inl IndexError | c # _ \<Rightarrow> Inr (JStr [c]))"
| "py_getitem0 (JObj kvs) = Inl KeyError"
| "py_getitem0 JNull = Inl TypeError"
| "py_getitem0 (JBool b) = Inl TypeError"
| "py_getitem0 (JNum n) = Inl TypeError"

text \<open>\<open>x.get(key, default)\<close>: only a dict has it.\<close>

fun py_get :: "json \<Rightarrow> string \<Rightarrow> json \<Rightarrow> exn + json" where
  "py_get (JObj kvs) k d = Inr (case map_of kvs k of None \<Rightarrow> d | Some v \<Rightarrow> v)"
| "py_get (JArr xs) k d = Inl AttributeError"
| "py_get (JStr s) k d = Inl AttributeError"
| "py_get JNull k d = Inl AttributeError"
| "py_get (JBool b) k d = Inl AttributeError"
| "py_get (JNum n) k d = Inl AttributeError"

text \<open>The keys of a dict, each once, in the order of first insertion.\<close>

definition dict_keys :: "(string \<times> json) list \<Rightarrow> string list" where
  "dict_keys kvs = rev (remdups (rev (map fst kvs)))"

text \<open>\<open>for item in x\<close>: the items visited. A dict yields its keys, a string its
  characters.\<close>

fun py_iter :: "json \<Rightarrow> exn + json list" where
  "py_iter (JArr xs) = Inr xs"
| "py_iter (JObj kvs) = Inr (map JStr (dict_keys kvs))"
| "py_iter (JStr s) = Inr (map (\<lambda>c. JStr [c]) s)"
| "py_iter JNull = Inl TypeError"
| "py_iter (JBool b) = Inl TypeError"
| "py_iter (JNum n) = Inl TypeError"

text \<open>\<open>len(x)\<close>; a string counts code points, the bytes that are not UTF-8
  continuation bytes.\<close>

fun py_len :: "json \<Rightarrow> exn + nat" where
  "py_len (JArr xs) = Inr (length xs)"
| "py_len (JObj kvs) = Inr (length (dict_keys kvs))"
| "py_len (JStr s) = Inr (length (filter (\<lambda>c. (of_char c :: nat) div 64 \<noteq> 2) s))"
| "py_len JNull = Inl TypeError"
| "py_len (JBool b) = Inl TypeError"
| "py_len (JNum n) = Inl TypeError"

text \<open>\<open>x.startswith(m)\<close>: only a string has it.\<close>

fun py_startswith :: "json \<Rightarrow> string \<Rightarrow> exn + bool" where
  "py_startswith (JStr s) m = Inr (startswith s m)"
| "py_startswith (JArr xs) m = Inl AttributeError"
| "py_startswith (JObj kvs) m = Inl AttributeError"
| "py_startswith JNull m = Inl AttributeError"
| "py_startswith (JBool b) m = Inl AttributeError"
| "py_startswith (JNum n) m = Inl AttributeError"

text \<open>\<open>sep.join(xs)\<close>: a \<open>TypeError\<close> unless every item is a string.\<close>

fun py_join :: "string \<Rightarrow> json list \<Rightarrow> exn + string" where
  "py_join sep [] = Inr []"
| "py_join sep [JStr s] = Inr s"
| "py_join sep (JStr s # x # xs) =
     (case py_join sep (x # xs) of Inl e \<Rightarrow> Inl e | Inr r \<Rightarrow> Inr (s @ sep @ r))"
| "py_join sep (_ # xs) = Inl TypeError"

section \<open>The transport and what the client prints\<close>

text \<open>
  One JSON-RPC request as it is put on the wire (\<open>"jsonrpc": "2.0"\<close> is constant).
\<close>

record payload =
  rpc_id :: int
  rpc_method :: string
  rpc_params :: json

text \<open>
  What one HTTP round trip gives: an exception (connection refused, the 30 second
  timeout, a bad status in \<open>raise_for_status\<close>, a body that is not JSON) with its
  message, or the decoded body.
\<close>

datatype reply = Raises string | Body json

text \<open>
  The world outside the client: the requests given to the transport so far, in order,
  and what was printed. The server is any function of the requests it has seen and the
  current one; \<open>loads\<close> is \<open>json.loads\<close> on a string (\<open>None\<close>: it raises
  \<open>JSONDecodeError\<close>); \<open>rich_raises\<close> is the rendering library: the exception it
  raises on an item it is given, \<open>None\<close> when it prints it.
\<close>

datatype message =
    Connecting string
  | ConnectionFailed json
  | ConnectedSuccessfully
  | ToolNotFound string string
  | CallingTool string
  | Arguments json
  | ToolCallFailed json
  | Evaluating string
  | RunningTests
  | RunningTest string
  | TestOk string
  | TestFailedText string json
  | TestFailedError string json
  | TestResults nat nat
  | AllTestsPassed
  | TestsFailed nat
  | NoToolsAvailable
  | AvailableTools nat
  | ToolLine nat json
  | ToolDescription json
  | Parameters string
  | BlankLine
  | UseHelp
  | InstallRich
  | InvalidJsonInArgs
  | Sending payload
  | Received json
  | ReceivedRaw string
  | ErrorLine json

text \<open>
  What reaches the terminal: \<open>Print\<close> and \<open>Stdout\<close> through the built-in
  \<open>print\<close>, the other items through \<open>console.print\<close> of the rendering library
  (\<open>Console\<close> a message with markup, \<open>TableRow\<close> one \<open>add_row\<close>).
\<close>

datatype printed =
    Print message
  | Stdout message
  | StdoutJson json
  | Console message
  | PanelSyntax json
  | PanelText json
  | TableRow "json \<times> json \<times> string"
  | Table "(json \<times> json \<times> string) list"

record world =
  sent :: "payload list"
  out :: "printed list"

record env =
  post :: "payload list \<Rightarrow> payload \<Rightarrow> reply"
  loads :: "string \<Rightarrow> json option"
  HAS_RICH :: bool
  rich_raises :: "printed \<Rightarrow> exn option"

definition emit :: "printed \<Rightarrow> world \<Rightarrow> world" where
  "emit x w = w\<lparr>out := out w @ [x]\<rparr>"

definition init_world :: world where
  "init_world = \<lparr>sent = [], out = []\<rparr>"

section \<open>MCPnREPLClient\<close>

text \<open>The fields of the client that the code reads again; \<open>console\<close> says that
  \<open>self.console\<close> is not \<open>None\<close>.\<close>

record client =
  mcp_url :: string
  quiet :: bool
  console :: bool
  initialized :: bool
  tools_cache :: json
  history :: "string list"

definition init_client :: "env \<Rightarrow> string \<Rightarrow> bool \<Rightarrow> client" where
  "init_client ev url q =
     \<lparr>mcp_url = url, quiet = q, console = HAS_RICH ev, initialized = False,
      tools_cache = JArr [], history = []\<rparr>"

text \<open>\<open>console.print(x)\<close>: the library raises, or the item is printed.\<close>

definition console_print :: "env \<Rightarrow> printed \<Rightarrow> world \<Rightarrow> (exn + unit) \<times> world" where
  "console_print ev x w =
     (case rich_raises ev x of Some e \<Rightarrow> (Inl e, w) | None \<Rightarrow> (Inr (), emit x w))"

text \<open>\<open>_print\<close> and its callers \<open>_error\<close>, \<open>_success\<close>, \<open>_info\<close>, \<open>_warn\<close>:
  nothing in quiet mode; through the console when the library is there, where the
  message is parsed for markup and may be refused; through \<open>print\<close> otherwise. Colour
  and style are not modelled.\<close>

definition print_msg :: "env \<Rightarrow> client \<Rightarrow> message \<Rightarrow> world \<Rightarrow> exn + world" where
  "print_msg ev c m w =
     (if quiet c then Inr w
      else if HAS_RICH ev \<and> console c then
        (case rich_raises ev (Console m) of Some e \<Rightarrow> Inl e | None \<Rightarrow> Inr (emit (Console m) w))
      else Inr (emit (Print m) w))"

text \<open>
  Plain output: the client is quiet, or the rendering library is not in use, so that
  \<open>_print\<close> prints nothing or goes through the built-in \<open>print\<close>; \<open>say\<close> is what it
  leaves in the world then.
\<close>

definition plain_output :: "env \<Rightarrow> client \<Rightarrow> bool" where
  "plain_output ev c = (quiet c \<or> \<not> (HAS_RICH ev \<and> console c))"

definition say :: "client \<Rightarrow> message \<Rightarrow> world \<Rightarrow> world" where
  "say c m w = (if quiet c then w else emit (Print m) w)"

definition error_obj :: "json \<Rightarrow> json" where
  "error_obj v = JObj [(''error'', v)]"

text \<open>
  \<open>_make_request\<close>: the request id is the literal \<open>1\<close>; \<open>params or {}\<close>; every
  exception inside the \<open>try\<close> becomes \<open>{"error": str(e)}\<close>. \<open>unwrap\<close> is what
  the function returns for one reply of the transport.
\<close>

definition request_payload :: "string \<Rightarrow> json \<Rightarrow> payload" where
  "request_payload method params =
     \<lparr>rpc_id = 1, rpc_method = method,
      rpc_params = (if py_truthy params then params else JObj [])\<rparr>"

definition unwrap :: "reply \<Rightarrow> json" where
  "unwrap r =
     (case r of
        Raises e \<Rightarrow> error_obj (JStr e)
      | Body result \<Rightarrow>
          (case py_in ''error'' result of
             Inl e \<Rightarrow> error_obj (JStr (str_exn e))
           | Inr True \<Rightarrow>
               (case py_getitem result ''error'' of
                  Inl e \<Rightarrow> error_obj (JStr (str_exn e))
                | Inr v \<Rightarrow> error_obj v)
           | Inr False \<Rightarrow>
               (case py_get result ''result'' (JObj []) of
                  Inl e \<Rightarrow> error_obj (JStr (str_exn e))
                | Inr v \<Rightarrow> v)))"

definition make_request :: "env \<Rightarrow> string \<Rightarrow> json \<Rightarrow> world \<Rightarrow> json \<times> world" where
  "make_request ev method params w =
     (let pl = request_payload method params
      in (unwrap (post ev (sent w) pl), w\<lparr>sent := sent w @ [pl]\<rparr>))"

text \<open>\<open>_cache_tools\<close>: the cache is assigned only under \<open>if "tools" in result\<close>;
  nothing is returned and nothing is printed.\<close>

definition cache_tools :: "env \<Rightarrow> client \<Rightarrow> world \<Rightarrow> (exn + unit) \<times> client \<times> world" where
  "cache_tools ev c w =
     (case make_request ev ''tools/list'' JNull w of
        (result, w1) \<Rightarrow>
          (case py_in ''tools'' result of
             Inl e \<Rightarrow> (Inl e, c, w1)
           | Inr False \<Rightarrow> (Inr (), c, w1)
           | Inr True \<Rightarrow>
               (case py_getitem result ''tools'' of
                  Inl e \<Rightarrow> (Inl e, c, w1)
                | Inr v \<Rightarrow> (Inr (), c\<lparr>tools_cache := v\<rparr>, w1))))"

definition initialize_params :: json where
  "initialize_params =
     JObj [(''protocolVersion'', JStr ''2024-11-05''),
           (''capabilities'',
              JObj [(''tools'', JObj [(''list'', JBool True), (''call'', JBool True)])]),
           (''clientInfo'',
              JObj [(''name'', JStr ''mcp-nrepl-client''), (''version'', JStr ''1.0.0'')])]"

text \<open>\<open>connect\<close>: one \<open>initialize\<close> request; on \<open>"error" in result\<close> it prints and
  returns \<open>False\<close>; otherwise it sets \<open>initialized\<close>, calls \<open>_cache_tools\<close> and
  returns \<open>True\<close>.\<close>

definition connect :: "env \<Rightarrow> client \<Rightarrow> world \<Rightarrow> (exn + bool) \<times> client \<times> world" where
  "connect ev c w =
     (case (if \<not> quiet c then print_msg ev c (Connecting (mcp_url c)) w else Inr w) of
        Inl e \<Rightarrow> (Inl e, c, w)
      | Inr w0 \<Rightarrow>
          (case make_request ev ''initialize'' initialize_params w0 of
             (result, w1) \<Rightarrow>
               (case py_in ''error'' result of
                  Inl e \<Rightarrow> (Inl e, c, w1)
                | Inr True \<Rightarrow>
                    (case py_getitem result ''error'' of
                       Inl e \<Rightarrow> (Inl e, c, w1)
                     | Inr v \<Rightarrow>
                         (case print_msg ev c (ConnectionFailed v) w1 of
                            Inl e \<Rightarrow> (Inl e, c, w1)
                          | Inr w2 \<Rightarrow> (Inr False, c, w2)))
                | Inr False \<Rightarrow>
                    (case cache_tools ev (c\<lparr>initialized := True\<rparr>) w1 of
                       (Inl e, c2, w2) \<Rightarrow> (Inl e, c2, w2)
                     | (Inr u, c2, w2) \<Rightarrow>
                         (case (if \<not> quiet c2 then print_msg ev c2 ConnectedSuccessfully w2
                                else Inr w2) of
                            Inl e \<Rightarrow> (Inl e, c2, w2)
                          | Inr w3 \<Rightarrow> (Inr True, c2, w3))))))"

text \<open>\<open>_get_tool_names\<close>: \<open>[tool["name"] for tool in self.tools_cache]\<close>.\<close>

fun names_of :: "json list \<Rightarrow> exn + json list" where
  "names_of [] = Inr []"
| "names_of (tool # rest) =
     (case py_getitem tool ''name'' of
        Inl e \<Rightarrow> Inl e
      | Inr v \<Rightarrow> (case names_of rest of Inl e \<Rightarrow> Inl e | Inr vs \<Rightarrow> Inr (v # vs)))"

definition get_tool_names :: "client \<Rightarrow> exn + json list" where
  "get_tool_names c =
     (case py_iter (tools_cache c) of Inl e \<Rightarrow> Inl e | Inr tools \<Rightarrow> names_of tools)"

text \<open>\<open>_find_tool\<close>: the first tool whose name equals \<open>name\<close>, \<open>None\<close> after the
  loop.\<close>

fun find_in :: "json list \<Rightarrow> string \<Rightarrow> exn + json option" where
  "find_in [] name = Inr None"
| "find_in (tool # rest) name =
     (case py_getitem tool ''name'' of
        Inl e \<Rightarrow> Inl e
      | Inr v \<Rightarrow> if v = JStr name then Inr (Some tool) else find_in rest name)"

definition find_tool :: "client \<Rightarrow> string \<Rightarrow> exn + json option" where
  "find_tool c name =
     (case py_iter (tools_cache c) of Inl e \<Rightarrow> Inl e | Inr tools \<Rightarrow> find_in tools name)"

text \<open>Truthiness of an \<open>Optional\<close> value.\<close>

fun opt_truthy :: "json option \<Rightarrow> bool" where
  "opt_truthy None = False"
| "opt_truthy (Some v) = py_truthy v"

text \<open>
  \<open>_format_pretty_result\<close>. One text item: \<open>json.loads(text)\<close> and the print of the
  parsed value are inside \<open>try\<close>; the bare \<open>except\<close> prints a panel of the text
  itself, and nothing encloses that print. \<open>json.loads\<close> of a value that is not a
  string raises too, and is caught the same way.
\<close>

definition show_text :: "env \<Rightarrow> json \<Rightarrow> world \<Rightarrow> (exn + unit) \<times> world" where
  "show_text ev text w =
     (case (case text of JStr s \<Rightarrow> loads ev s | _ \<Rightarrow> None) of
        Some parsed \<Rightarrow>
          (case rich_raises ev (PanelSyntax parsed) of
             None \<Rightarrow> (Inr (), emit (PanelSyntax parsed) w)
           | Some e \<Rightarrow> console_print ev (PanelText text) w)
      | None \<Rightarrow> console_print ev (PanelText text) w)"

fun format_items :: "env \<Rightarrow> json list \<Rightarrow> world \<Rightarrow> (exn + unit) \<times> world" where
  "format_items ev [] w = (Inr (), w)"
| "format_items ev (item # items) w =
     (case py_get item ''type'' JNull of
        Inl e \<Rightarrow> (Inl e, w)
      | Inr t \<Rightarrow>
          if t = JStr ''text'' then
            (case py_getitem item ''text'' of
               Inl e \<Rightarrow> (Inl e, w)
             | Inr text \<Rightarrow>
                 (case show_text ev text w of
                    (Inl e, w1) \<Rightarrow> (Inl e, w1)
                  | (Inr u, w1) \<Rightarrow> format_items ev items w1))
          else format_items ev items w)"

definition format_pretty_result :: "env \<Rightarrow> client \<Rightarrow> json \<Rightarrow> world \<Rightarrow> (exn + unit) \<times> world" where
  "format_pretty_result ev c result w =
     (if \<not> HAS_RICH ev \<or> \<not> console c then (Inr (), emit (StdoutJson result) w)
      else case py_in ''content'' result of
             Inl e \<Rightarrow> (Inl e, w)
           | Inr True \<Rightarrow>
               (case py_getitem result ''content'' of
                  Inl e \<Rightarrow> (Inl e, w)
                | Inr content \<Rightarrow>
                    (case py_iter content of
                       Inl e \<Rightarrow> (Inl e, w)
                     | Inr items \<Rightarrow> format_items ev items w))
           | Inr False \<Rightarrow> console_print ev (PanelSyntax result) w)"

text \<open>
  \<open>call_tool\<close>: the lookup comes first and returns \<open>{"error": "Tool not found"}\<close>
  before any request; the message of that branch joins the tool names, which raises
  when a name is not a string.
\<close>

definition tool_not_found :: json where
  "tool_not_found = error_obj (JStr ''Tool not found'')"

text \<open>The lines before the request: \<open>if not self.quiet:\<close> the name of the tool, and
  \<open>if arguments:\<close> the arguments.\<close>

definition announce ::
  "env \<Rightarrow> client \<Rightarrow> string \<Rightarrow> json \<Rightarrow> world \<Rightarrow> (exn + unit) \<times> world" where
  "announce ev c tool_name arguments w =
     (if \<not> quiet c then
        (case print_msg ev c (CallingTool tool_name) w of
           Inl e \<Rightarrow> (Inl e, w)
         | Inr wi \<Rightarrow>
             if py_truthy arguments then
               (case print_msg ev c (Arguments arguments) wi of
                  Inl e \<Rightarrow> (Inl e, wi)
                | Inr wj \<Rightarrow> (Inr (), wj))
             else (Inr (), wi))
      else (Inr (), w))"

definition call_tool ::
  "env \<Rightarrow> client \<Rightarrow> string \<Rightarrow> json \<Rightarrow> bool \<Rightarrow> world \<Rightarrow> (exn + json) \<times> world" where
  "call_tool ev c tool_name arguments pretty w =
     (case find_tool c tool_name of
        Inl e \<Rightarrow> (Inl e, w)
      | Inr found \<Rightarrow>
          if \<not> opt_truthy found then
            (case get_tool_names c of
               Inl e \<Rightarrow> (Inl e, w)
             | Inr names \<Rightarrow>
                 (case py_join '', '' names of
                    Inl e \<Rightarrow> (Inl e, w)
                  | Inr joined \<Rightarrow>
                      (case print_msg ev c (ToolNotFound tool_name joined) w of
                         Inl e \<Rightarrow> (Inl e, w)
                       | Inr w1 \<Rightarrow> (Inr tool_not_found, w1))))
          else
            (case announce ev c tool_name arguments w of
               (Inl e, w0) \<Rightarrow> (Inl e, w0)
             | (Inr u, w0) \<Rightarrow>
                 (case make_request ev ''tools/call''
                         (JObj [(''name'', JStr tool_name), (''arguments'', arguments)]) w0 of
                    (result, w1) \<Rightarrow>
                      (case py_in ''error'' result of
                         Inl e \<Rightarrow> (Inl e, w1)
                       | Inr True \<Rightarrow>
                           (case py_getitem result ''error'' of
                              Inl e \<Rightarrow> (Inl e, w1)
                            | Inr v \<Rightarrow>
                                (case print_msg ev c (ToolCallFailed v) w1 of
                                   Inl e \<Rightarrow> (Inl e, w1)
                                 | Inr w2 \<Rightarrow> (Inr result, w2)))
                       | Inr False \<Rightarrow>
                           if pretty \<and> HAS_RICH ev \<and> console c then
                             (case format_pretty_result ev c result w1 of
                                (Inl e, w2) \<Rightarrow> (Inl e, w2)
                              | (Inr u, w2) \<Rightarrow> (Inr result, w2))
                           else if \<not> quiet c then (Inr result, emit (StdoutJson result) w1)
                           else (Inr result, w1)))))"

text \<open>
  \<open>eval_code\<close>: \<open>self.history.append(code)\<close> is the statement after the call, under
  no condition; it is not reached when the call raises.
\<close>

definition eval_code ::
  "env \<Rightarrow> client \<Rightarrow> string \<Rightarrow> string option \<Rightarrow> bool \<Rightarrow> world
     \<Rightarrow> (exn + json) \<times> client \<times> world" where
  "eval_code ev c code ns pretty w =
     (let args = JObj ([(''code'', JStr code)] @
                       (case ns of None \<Rightarrow> [] | Some n \<Rightarrow> if n \<noteq> [] then [(''ns'', JStr n)] else []))
      in case (if \<not> quiet c then print_msg ev c (Evaluating code) w else Inr w) of
           Inl e \<Rightarrow> (Inl e, c, w)
         | Inr w0 \<Rightarrow>
             (case call_tool ev c ''nrepl-eval'' args pretty w0 of
                (Inl e, w1) \<Rightarrow> (Inl e, c, w1)
              | (Inr result, w1) \<Rightarrow> (Inr result, c\<lparr>history := history c @ [code]\<rparr>, w1)))"

definition get_status :: "env \<Rightarrow> client \<Rightarrow> bool \<Rightarrow> world \<Rightarrow> (exn + json) \<times> world" where
  "get_status ev c pretty w = call_tool ev c ''nrepl-status'' (JObj []) pretty w"

section \<open>The scenario runner\<close>

text \<open>The marker, byte for byte as the source file has it.\<close>

definition failure_marker :: string where
  "failure_marker = [CHR 0xE2, CHR 0x80, CHR 0x9A, CHR 0xC3, CHR 0xB9, CHR 0xC3, CHR 0xA5]"

type_synonym step = "string \<times> string \<times> json"

definition tests :: "step list" where
  \<open>tests =
     [(''Connection Status'', ''nrepl-status'', JObj []),
      (''Basic Arithmetic'', ''nrepl-eval'', JObj [(''code'', JStr ''(+ 1 2 3)'')]),
      (''String Operations'', ''nrepl-eval'',
         JObj [(''code'', JStr ''(str "Hello" " " "World")'')]),
      (''Data Structures'', ''nrepl-eval'', JObj [(''code'', JStr ''(count [1 2 3 4 5])'')]),
      (''Function Definition'', ''nrepl-eval'',
         JObj [(''code'', JStr ''(defn test-fn [x] (* x 2))'')]),
      (''Function Call'', ''nrepl-eval'', JObj [(''code'', JStr ''(test-fn 21)'')]),
      (''Comprehensive Health Test'', ''nrepl-test'', JObj [])]\<close>

text \<open>
  The text the runner inspects:
  \<open>result["content"][0].get("text", "") if result["content"] else ""\<close>.
\<close>

definition first_text :: "json \<Rightarrow> exn + json" where
  "first_text cont =
     (if py_truthy cont then
        (case py_getitem0 cont of Inl e \<Rightarrow> Inl e | Inr item \<Rightarrow> py_get item ''text'' (JStr []))
      else Inr (JStr []))"

text \<open>
  The body of the loop after the call: whether \<open>passed\<close> is incremented, and what is
  narrated when \<open>summary\<close> is off.
\<close>

text \<open>A line of narration, printed unless \<open>summary\<close> is set.\<close>

definition narrate :: "env \<Rightarrow> client \<Rightarrow> bool \<Rightarrow> message \<Rightarrow> world \<Rightarrow> exn + world" where
  "narrate ev c summary m w = (if \<not> summary then print_msg ev c m w else Inr w)"

definition check_result ::
  "env \<Rightarrow> client \<Rightarrow> bool \<Rightarrow> string \<Rightarrow> json \<Rightarrow> world \<Rightarrow> (exn + bool) \<times> world" where
  "check_result ev c summary test_name result w =
     (case py_in ''error'' result of
        Inl e \<Rightarrow> (Inl e, w)
      | Inr False \<Rightarrow>
          (case py_in ''content'' result of
             Inl e \<Rightarrow> (Inl e, w)
           | Inr True \<Rightarrow>
               (case py_getitem result ''content'' of
                  Inl e \<Rightarrow> (Inl e, w)
                | Inr cont \<Rightarrow>
                    (case first_text cont of
                       Inl e \<Rightarrow> (Inl e, w)
                     | Inr content \<Rightarrow>
                         (case py_startswith content failure_marker of
                            Inl e \<Rightarrow> (Inl e, w)
                          | Inr False \<Rightarrow>
                              (case narrate ev c summary (TestOk test_name) w of
                                 Inl e \<Rightarrow> (Inl e, w)
                               | Inr w1 \<Rightarrow> (Inr True, w1))
                          | Inr True \<Rightarrow>
                              (case narrate ev c summary (TestFailedText test_name content) w of
                                 Inl e \<Rightarrow> (Inl e, w)
                               | Inr w1 \<Rightarrow> (Inr False, w1)))))
           | Inr False \<Rightarrow>
               (case narrate ev c summary (TestOk test_name) w of
                  Inl e \<Rightarrow> (Inl e, w)
                | Inr w1 \<Rightarrow> (Inr True, w1)))
      | Inr True \<Rightarrow>
          if \<not> summary then
            (case py_getitem result ''error'' of
               Inl e \<Rightarrow> (Inl e, w)
             | Inr v \<Rightarrow>
                 (case print_msg ev c (TestFailedError test_name v) w of
                    Inl e \<Rightarrow> (Inl e, w)
                  | Inr w1 \<Rightarrow> (Inr False, w1)))
          else (Inr False, w))"

text \<open>The \<open>for\<close> loop over the steps, with the counter \<open>passed\<close>.\<close>

fun run_steps ::
  "env \<Rightarrow> client \<Rightarrow> bool \<Rightarrow> step list \<Rightarrow> nat \<Rightarrow> world \<Rightarrow> (exn + nat) \<times> world" where
  "run_steps ev c summary [] passed w = (Inr passed, w)"
| "run_steps ev c summary ((test_name, tool_name, args) # rest) passed w =
     (case narrate ev c summary (RunningTest test_name) w of
        Inl e \<Rightarrow> (Inl e, w)
      | Inr w0 \<Rightarrow>
          (case call_tool ev c tool_name args False w0 of
             (Inl e, w1) \<Rightarrow> (Inl e, w1)
           | (Inr result, w1) \<Rightarrow>
               (case check_result ev c summary test_name result w1 of
                  (Inl e, w2) \<Rightarrow> (Inl e, w2)
                | (Inr ok, w2) \<Rightarrow>
                    run_steps ev c summary rest (if ok then passed + 1 else passed) w2)))"

text \<open>\<open>run_nrepl_tests\<close> with its list of steps as a parameter.\<close>

definition run_scenario ::
  "env \<Rightarrow> client \<Rightarrow> bool \<Rightarrow> step list \<Rightarrow> world \<Rightarrow> (exn + bool) \<times> world" where
  "run_scenario ev c summary steps w =
     (case narrate ev c summary RunningTests w of
        Inl e \<Rightarrow> (Inl e, w)
      | Inr w0 \<Rightarrow>
          (case run_steps ev c summary steps 0 w0 of
             (Inl e, w1) \<Rightarrow> (Inl e, w1)
           | (Inr passed, w1) \<Rightarrow>
               (case print_msg ev c (TestResults passed (length steps)) w1 of
                  Inl e \<Rightarrow> (Inl e, w1)
                | Inr w2 \<Rightarrow>
                    (case print_msg ev c
                            (if passed = length steps then AllTestsPassed
                             else TestsFailed (length steps - passed)) w2 of
                       Inl e \<Rightarrow> (Inl e, w2)
                     | Inr w3 \<Rightarrow> (Inr (passed = length steps), w3)))))"

definition run_nrepl_tests ::
  "env \<Rightarrow> client \<Rightarrow> bool \<Rightarrow> world \<Rightarrow> (exn + bool) \<times> world" where
  "run_nrepl_tests ev c summary w = run_scenario ev c summary tests w"

section \<open>Listing the tools\<close>

text \<open>\<open>"inputSchema" in tool and tool["inputSchema"]\<close>: the schema when it is there
  and truthy.\<close>

definition input_schema :: "json \<Rightarrow> exn + json option" where
  "input_schema tool =
     (case py_in ''inputSchema'' tool of
        Inl e \<Rightarrow> Inl e
      | Inr False \<Rightarrow> Inr None
      | Inr True \<Rightarrow>
          (case py_getitem tool ''inputSchema'' of
             Inl e \<Rightarrow> Inl e
           | Inr schema \<Rightarrow> Inr (if py_truthy schema then Some schema else None)))"

text \<open>\<open>props.keys()\<close> and \<open>props.items()\<close>: only a dict has them.\<close>

fun py_keys :: "json \<Rightarrow> exn + string list" where
  "py_keys (JObj kvs) = Inr (dict_keys kvs)"
| "py_keys (JArr xs) = Inl AttributeError"
| "py_keys (JStr s) = Inl AttributeError"
| "py_keys JNull = Inl AttributeError"
| "py_keys (JBool b) = Inl AttributeError"
| "py_keys (JNum n) = Inl AttributeError"

text \<open>The parameter column of the table: each property name, starred when it is
  \<open>in required\<close>.\<close>

fun star_params :: "string list \<Rightarrow> json \<Rightarrow> exn + json list" where
  "star_params [] required = Inr []"
| "star_params (param # rest) required =
     (case py_in param required of
        Inl e \<Rightarrow> Inl e
      | Inr b \<Rightarrow>
          (case star_params rest required of
             Inl e \<Rightarrow> Inl e
           | Inr ps \<Rightarrow> Inr (JStr (param @ (if b then ''*'' else [])) # ps)))"

definition table_params :: "json \<Rightarrow> exn + json list" where
  "table_params tool =
     (case input_schema tool of
        Inl e \<Rightarrow> Inl e
      | Inr None \<Rightarrow> Inr []
      | Inr (Some schema) \<Rightarrow>
          (case py_get schema ''properties'' (JObj []) of
             Inl e \<Rightarrow> Inl e
           | Inr props \<Rightarrow>
               (case py_get schema ''required'' (JArr []) of
                  Inl e \<Rightarrow> Inl e
                | Inr required \<Rightarrow>
                    (case py_keys props of
                       Inl e \<Rightarrow> Inl e
                     | Inr ks \<Rightarrow> star_params ks required))))"

fun table_rows :: "env \<Rightarrow> json list \<Rightarrow> exn + (json \<times> json \<times> string) list" where
  "table_rows ev [] = Inr []"
| "table_rows ev (tool # rest) =
     (case table_params tool of
        Inl e \<Rightarrow> Inl e
      | Inr params \<Rightarrow>
          (case py_getitem tool ''name'' of
             Inl e \<Rightarrow> Inl e
           | Inr name \<Rightarrow>
               (case py_get tool ''description'' (JStr ''No description'') of
                  Inl e \<Rightarrow> Inl e
                | Inr d \<Rightarrow>
                    (case (if params \<noteq> [] then py_join '', '' params else Inr ''None'') of
                       Inl e \<Rightarrow> Inl e
                     | Inr joined \<Rightarrow>
                         (case rich_raises ev (TableRow (name, d, joined)) of
                            Some e \<Rightarrow> Inl e
                          | None \<Rightarrow>
                              (case table_rows ev rest of
                                 Inl e \<Rightarrow> Inl e
                               | Inr rows \<Rightarrow> Inr ((name, d, joined) # rows)))))))"

text \<open>The parameter line of the plain text format, when there is one.\<close>

definition text_params :: "json \<Rightarrow> exn + string option" where
  "text_params tool =
     (case input_schema tool of
        Inl e \<Rightarrow> Inl e
      | Inr None \<Rightarrow> Inr None
      | Inr (Some schema) \<Rightarrow>
          (case py_get schema ''properties'' (JObj []) of
             Inl e \<Rightarrow> Inl e
           | Inr props \<Rightarrow>
               if py_truthy props then
                 (case py_keys props of
                    Inl e \<Rightarrow> Inl e
                  | Inr ks \<Rightarrow>
                      (case py_join '', '' (map JStr ks) of
                         Inl e \<Rightarrow> Inl e
                       | Inr joined \<Rightarrow> Inr (Some joined)))
               else Inr None))"

fun list_text :: "env \<Rightarrow> client \<Rightarrow> json list \<Rightarrow> nat \<Rightarrow> world \<Rightarrow> (exn + unit) \<times> world" where
  "list_text ev c [] i w = (Inr (), w)"
| "list_text ev c (tool # rest) i w =
     (case py_getitem tool ''name'' of
        Inl e \<Rightarrow> (Inl e, w)
      | Inr name \<Rightarrow>
          (case print_msg ev c (ToolLine i name) w of
             Inl e \<Rightarrow> (Inl e, w)
           | Inr w1 \<Rightarrow>
               (case py_get tool ''description'' (JStr ''No description'') of
                  Inl e \<Rightarrow> (Inl e, w1)
                | Inr d \<Rightarrow>
                    (case print_msg ev c (ToolDescription d) w1 of
                       Inl e \<Rightarrow> (Inl e, w1)
                     | Inr w2 \<Rightarrow>
                         (case text_params tool of
                            Inl e \<Rightarrow> (Inl e, w2)
                          | Inr ps \<Rightarrow>
                              (case (case ps of None \<Rightarrow> Inr w2
                                     | Some joined \<Rightarrow> print_msg ev c (Parameters joined) w2) of
                                 Inl e \<Rightarrow> (Inl e, w2)
                               | Inr w3 \<Rightarrow>
                                   list_text ev c rest (i + 1) (emit (Stdout BlankLine) w3)))))))"

text \<open>
  \<open>list_tools\<close>: a second \<open>_cache_tools\<close> when the cache is falsy, then
  \<open>return False\<close> after "No tools available" when it still is; \<open>True\<close> after a
  listing. The table is printed once all its rows are added.
\<close>

definition list_tools ::
  "env \<Rightarrow> client \<Rightarrow> string \<Rightarrow> world \<Rightarrow> (exn + bool) \<times> client \<times> world" where
  "list_tools ev c format w =
     (case (if \<not> py_truthy (tools_cache c) then cache_tools ev c w else (Inr (), c, w)) of
        (Inl e, c1, w1) \<Rightarrow> (Inl e, c1, w1)
      | (Inr u, c1, w1) \<Rightarrow>
          if \<not> py_truthy (tools_cache c1) then
            (case print_msg ev c1 NoToolsAvailable w1 of
               Inl e \<Rightarrow> (Inl e, c1, w1)
             | Inr w2 \<Rightarrow> (Inr False, c1, w2))
          else if format = ''json'' then
            (Inr True, c1, emit (StdoutJson (tools_cache c1)) w1)
          else if format = ''table'' \<and> HAS_RICH ev \<and> console c1 then
            (case py_iter (tools_cache c1) of
               Inl e \<Rightarrow> (Inl e, c1, w1)
             | Inr tools \<Rightarrow>
                 (case table_rows ev tools of
                    Inl e \<Rightarrow> (Inl e, c1, w1)
                  | Inr rows \<Rightarrow>
                      (case console_print ev (Table rows) w1 of
                         (Inl e, w2) \<Rightarrow> (Inl e, c1, w2)
                       | (Inr u, w2) \<Rightarrow> (Inr True, c1, w2))))
          else
            (case py_len (tools_cache c1) of
               Inl e \<Rightarrow> (Inl e, c1, w1)
             | Inr n \<Rightarrow>
                 (case print_msg ev c1 (AvailableTools n) w1 of
                    Inl e \<Rightarrow> (Inl e, c1, w1)
                  | Inr w2 \<Rightarrow>
                      (case py_iter (tools_cache c1) of
                         Inl e \<Rightarrow> (Inl e, c1, w2)
                       | Inr tools \<Rightarrow>
                           (case list_text ev c1 tools 1 w2 of
                              (Inl e, w3) \<Rightarrow> (Inl e, c1, w3)
                            | (Inr u, w3) \<Rightarrow> (Inr True, c1, w3))))))"

section \<open>The command line\<close>

text \<open>The parsed arguments, as \<open>parse_args\<close> returns them.\<close>

record args =
  a_url :: string
  a_eval :: "string option"
  a_status :: bool
  a_test_nrepl :: bool
  a_summary :: bool
  a_tools :: bool
  a_tool :: "string option"
  a_args :: string
  a_pretty :: bool
  a_quiet :: bool
  a_format :: string
  a_interactive :: bool

text \<open>
  How \<open>main\<close> ends: \<open>sys.exit(n)\<close>, a normal return, an exception nobody catches, or
  the call of \<open>interactive_mode\<close>, whose loop over the terminal is not part of this
  model. The interrupt signal is not modelled either.
\<close>

datatype ending = Exit int | Returns | Uncaught exn | Interactive

text \<open>The exit code of the process: a normal return is 0 and the interpreter turns
  an uncaught exception into 1.\<close>

fun exit_code :: "ending \<Rightarrow> int option" where
  "exit_code (Exit n) = Some n"
| "exit_code Returns = Some 0"
| "exit_code (Uncaught e) = Some 1"
| "exit_code Interactive = None"

text \<open>The value of \<open>args.eval\<close> or \<open>args.tool\<close> when \<open>if\<close> takes it as true.\<close>

fun given :: "string option \<Rightarrow> string option" where
  "given None = None"
| "given (Some s) = (if s = [] then None else Some s)"

text \<open>What \<open>if "error" in result: sys.exit(1)\<close> makes of a result.\<close>

definition exit_on_error :: "exn + json \<Rightarrow> ending" where
  "exit_on_error r =
     (case r of
        Inl e \<Rightarrow> Uncaught e
      | Inr result \<Rightarrow>
          (case py_in ''error'' result of
             Inl e \<Rightarrow> Uncaught e
           | Inr True \<Rightarrow> Exit 1
           | Inr False \<Rightarrow> Returns))"

definition main :: "env \<Rightarrow> args \<Rightarrow> world \<Rightarrow> ending \<times> world" where
  "main ev a w =
     (let w0 = (if \<not> HAS_RICH ev \<and> \<not> a_quiet a then emit (Stdout InstallRich) w else w);
          client = init_client ev (a_url a) (a_quiet a)
      in case connect ev client w0 of
           (Inl e, c, w1) \<Rightarrow> (Uncaught e, w1)
         | (Inr False, c, w1) \<Rightarrow> (Exit 1, w1)
         | (Inr True, c, w1) \<Rightarrow>
             (case given (a_eval a) of
                Some code \<Rightarrow>
                  (case eval_code ev c code None (a_pretty a) w1 of
                     (r, c2, w2) \<Rightarrow> (exit_on_error r, w2))
              | None \<Rightarrow>
                  if a_status a then
                    (case get_status ev c (a_pretty a) w1 of
                       (r, w2) \<Rightarrow> (exit_on_error r, w2))
                  else if a_test_nrepl a then
                    (case run_nrepl_tests ev c (a_summary a) w1 of
                       (Inl e, w2) \<Rightarrow> (Uncaught e, w2)
                     | (Inr success, w2) \<Rightarrow> (if \<not> success then Exit 1 else Returns, w2))
                  else if a_tools a then
                    (case list_tools ev c (a_format a) w1 of
                       (Inl e, c2, w2) \<Rightarrow> (Uncaught e, w2)
                     | (Inr b, c2, w2) \<Rightarrow> (Returns, w2))
                  else
                    (case given (a_tool a) of
                       Some name \<Rightarrow>
                         (case loads ev (a_args a) of
                            None \<Rightarrow> (Exit 1, emit (Stdout InvalidJsonInArgs) w1)
                          | Some tool_args \<Rightarrow>
                              (case call_tool ev c name tool_args (a_pretty a) w1 of
                                 (r, w2) \<Rightarrow> (exit_on_error r, w2)))
                     | None \<Rightarrow>
                         if a_interactive a then (Interactive, w1)
                         else
                           (case list_tools ev c (a_format a) w1 of
                              (Inl e, c2, w2) \<Rightarrow> (Uncaught e, w2)
                            | (Inr b, c2, w2) \<Rightarrow> (Returns, emit (Stdout UseHelp) w2)))))"

section \<open>StdioMCPClient\<close>

text \<open>
  The client of \<open>test_mcp_stdio.py\<close>: \<open>process\<close> says that the child was started,
  \<open>request_id\<close> is the counter, 0 in \<open>__init__\<close>.
\<close>

record stdio_client =
  process :: bool
  request_id :: int

definition init_stdio :: stdio_client where
  "init_stdio = \<lparr>process = False, request_id = 0\<rparr>"

definition start :: "stdio_client \<Rightarrow> stdio_client" where
  "start st = st\<lparr>process := True\<rparr>"





section \<open>Notions of the specification\<close>

text \<open>
  An operation of the catalog has a name that is a string; a catalog is a list of
  operations. \<open>catalog_names\<close> is the specification's \<open>names()\<close>.
\<close>

fun entry_name :: "json \<Rightarrow> string option" where
  "entry_name (JObj kvs) = (case map_of kvs ''name'' of Some (JStr n) \<Rightarrow> Some n | _ \<Rightarrow> None)"
| "entry_name _ = None"

definition well_formed_catalog :: "json \<Rightarrow> bool" where
  "well_formed_catalog cat =
     (case cat of JArr ts \<Rightarrow> list_all (\<lambda>t. entry_name t \<noteq> None) ts | _ \<Rightarrow> False)"

definition catalog_names :: "json \<Rightarrow> string list" where
  "catalog_names cat = (case cat of JArr ts \<Rightarrow> List.map_filter entry_name ts | _ \<Rightarrow> [])"




text \<open>
  The shape of a result in the wire protocol: an object that carries an error, or has
  no content, or whose content is empty or begins with an object whose text, if any,
  is a string.
\<close>

definition well_formed_content :: "json \<Rightarrow> bool" where
  "well_formed_content cont =
     (\<not> py_truthy cont \<or>
      (case cont of
         JArr (JObj item # _) \<Rightarrow>
           (case map_of item ''text'' of None \<Rightarrow> True | Some (JStr t) \<Rightarrow> True | Some _ \<Rightarrow> False)
       | _ \<Rightarrow> False))"

definition well_formed_result :: "json \<Rightarrow> bool" where
  "well_formed_result r =
     (case r of
        JObj kvs \<Rightarrow>
          map_of kvs ''error'' \<noteq> None \<or>
          (case map_of kvs ''content'' of None \<Rightarrow> True | Some cont \<Rightarrow> well_formed_content cont)
      | _ \<Rightarrow> False)"

definition conforming :: "env \<Rightarrow> bool" where
  "conforming ev = (\<forall>log pl. well_formed_result (unwrap (post ev log pl)))"

text \<open>
  The scenario as the specification describes it: every step in declaration order, one
  exchange for each step whose operation is in the catalog, a verdict for every step.
\<close>

definition call_payload :: "string \<Rightarrow> json \<Rightarrow> payload" where
  "call_payload tool arguments =
     request_payload ''tools/call'' (JObj [(''name'', JStr tool), (''arguments'', arguments)])"




section \<open>Stub transports\<close>

text \<open>
  A console that refuses a closing tag, as the markup parser of the library does when
  no tag is open: it raises on a message, a panel text or a table row that holds
  \<open>[/\<close>, and on a panel of something that is not a string.
\<close>

fun holds_tag :: "json \<Rightarrow> bool" where
  "holds_tag (JStr s) = str_contains ''[/'' s"
| "holds_tag (JArr xs) = list_ex holds_tag xs"
| "holds_tag (JObj kvs) =
     list_ex (\<lambda>kv. str_contains ''[/'' (fst kv) \<or> holds_tag (snd kv)) kvs"
| "holds_tag _ = False"

fun strict_console :: "printed \<Rightarrow> exn option" where
  "strict_console (PanelText (JStr s)) =
     (if str_contains ''[/'' s then Some MarkupError else None)"
| "strict_console (PanelText _) = Some NotRenderableError"
| "strict_console (Console m) =
     (if (case m of
            Connecting url \<Rightarrow> str_contains ''[/'' url
          | ConnectionFailed v \<Rightarrow> holds_tag v
          | ToolNotFound name joined \<Rightarrow>
              str_contains ''[/'' name \<or> str_contains ''[/'' joined
          | CallingTool name \<Rightarrow> str_contains ''[/'' name
          | Arguments arguments \<Rightarrow> holds_tag arguments
          | ToolCallFailed v \<Rightarrow> holds_tag v
          | Evaluating code \<Rightarrow> str_contains ''[/'' code
          | RunningTest label \<Rightarrow> str_contains ''[/'' label
          | TestOk label \<Rightarrow> str_contains ''[/'' label
          | TestFailedText label t \<Rightarrow> str_contains ''[/'' label \<or> holds_tag t
          | TestFailedError label v \<Rightarrow> str_contains ''[/'' label \<or> holds_tag v
          | ToolLine i name \<Rightarrow> holds_tag name
          | ToolDescription d \<Rightarrow> holds_tag d
          | Parameters joined \<Rightarrow> str_contains ''[/'' joined
          | _ \<Rightarrow> False)
      then Some MarkupError else None)"
| "strict_console (TableRow (name, d, joined)) =
     (if holds_tag name \<or> holds_tag d \<or> str_contains ''[/'' joined
      then Some MarkupError else None)"
| "strict_console _ = None"

text \<open>A transport that answers by method name alone.\<close>

definition stub :: "(string \<Rightarrow> reply) \<Rightarrow> (string \<Rightarrow> json option) \<Rightarrow> bool \<Rightarrow> env" where
  "stub f l rich =
     \<lparr>post = (\<lambda>log pl. f (rpc_method pl)), loads = l, HAS_RICH = rich,
      rich_raises = strict_console\<rparr>"

definition timeout_server :: "string \<Rightarrow> reply" where
  "timeout_server m = Raises ''timed out''"

definition no_tools_server :: "string \<Rightarrow> reply" where
  "no_tools_server m =
     (if m = ''initialize'' then Body (JObj [(''result'', JObj [])]) else Raises ''timed out'')"

definition six :: json where
  "six = JObj [(''content'', JArr [JObj [(''type'', JStr ''text''), (''text'', JStr ''6'')]])]"

definition echo_tools :: json where
  "echo_tools =
     JArr [JObj [(''name'', JStr ''nrepl-eval'')], JObj [(''name'', JStr ''nrepl-status'')],
           JObj [(''name'', JStr ''nrepl-test'')]]"



definition no_loads :: "string \<Rightarrow> json option" where
  "no_loads s = None"

definition tools_args :: args where
  "tools_args =
     \<lparr>a_url = ''http://localhost:3000/mcp'', a_eval = None, a_status = False,
      a_test_nrepl = False, a_summary = False, a_tools = True, a_tool = None,
      a_args = ''{}'', a_pretty = False, a_quiet = False, a_format = ''text'',
      a_interactive = False\<rparr>"

definition eval_args :: args where
  "eval_args = tools_args\<lparr>a_eval := Some ''(+ 1 2 3)'', a_tools := False\<rparr>"

text \<open>A transport that answers the k-th request with the k-th reply of a script and
  times out afterwards.\<close>

definition scripted :: "reply list \<Rightarrow> env" where
  "scripted rs =
     \<lparr>post = (\<lambda>log pl. if length log < length rs then rs ! length log
                         else Raises ''timed out''),
      loads = no_loads, HAS_RICH = False, rich_raises = strict_console\<rparr>"

definition failed_text :: json where
  "failed_text =
     JObj [(''content'',
            JArr [JObj [(''type'', JStr ''text''), (''text'', JStr (failure_marker @ '' boom''))]])]"

definition three_replies :: "reply list" where
  "three_replies =
     [Body (JObj [(''result'', six)]), Body (JObj [(''result'', failed_text)]),
      Body (JObj [(''result'', six)])]"


text \<open>A result whose text is not JSON and holds a closing tag, as the printed form of
  the Clojure vector \<open>[/ 6 3]\<close>.\<close>

definition closing_tag_text :: json where
  "closing_tag_text =
     JObj [(''content'', JArr [JObj [(''type'', JStr ''text''), (''text'', JStr ''[/ 6 3]'')]])]"

definition vector_server :: "string \<Rightarrow> reply" where
  "vector_server m =
     (if m = ''initialize'' then Body (JObj [(''result'', JObj [])])
      else if m = ''tools/list'' then Body (JObj [(''result'', JObj [(''tools'', echo_tools)])])
      else Body (JObj [(''result'', closing_tag_text)]))"



definition loads_six :: "string \<Rightarrow> json option" where
  "loads_six s = (if s = ''6'' then Some (JNum 6) else None)"

definition six_and_text :: json where
  "six_and_text =
     JObj [(''content'',
            JArr [JObj [(''type'', JStr ''text''), (''text'', JStr ''6'')],
                  JObj [(''type'', JStr ''text''), (''text'', JStr ''(not json'')]])]"

section \<open>Basic facts about the world\<close>

lemma sent_emit: "sent (emit x w) = sent w"
  by (simp add: emit_def)

lemma out_emit: "out (emit x w) = out w @ [x]"
  by (simp add: emit_def)

lemma sent_say: "sent (say c m w) = sent w"
  by (simp add: say_def sent_emit)

lemma out_say: "out (say c m w) = out w @ (if quiet c then [] else [Print m])"
  by (simp add: say_def out_emit)

lemma print_msg_plain: "plain_output ev c \<Longrightarrow> print_msg ev c m w = Inr (say c m w)"
  by (auto simp: plain_output_def print_msg_def say_def)


lemma print_msg_sent: "print_msg ev c m w = Inr w' \<Longrightarrow> sent w' = sent w"
  by (auto simp: print_msg_def sent_emit split: if_splits option.splits)

lemma narrate_sent: "narrate ev c summary m w = Inr w' \<Longrightarrow> sent w' = sent w"
  by (auto simp: narrate_def dest: print_msg_sent split: if_splits)

lemma make_request_result:
  "fst (make_request ev method params w) = unwrap (post ev (sent w) (request_payload method params))"
  by (simp add: make_request_def Let_def)


lemma make_request_out: "out (snd (make_request ev method params w)) = out w"
  by (simp add: make_request_def Let_def)


section \<open>The handshake and the catalog refresh\<close>



section \<open>The pass predicate of the runner\<close>



section \<open>Request ids\<close>













section \<open>Dispatch of a named operation\<close>

lemma entry_name_getitem: "entry_name t = Some n \<Longrightarrow> py_getitem t ''name'' = Inr (JStr n)"
  by (cases t) (auto split: option.splits json.splits)

lemma entry_name_truthy: "entry_name t = Some n \<Longrightarrow> py_truthy t"
  by (cases t) (auto split: option.splits json.splits)

lemma find_in_absent:
  "list_all (\<lambda>t. entry_name t \<noteq> None) ts \<Longrightarrow> name \<notin> set (List.map_filter entry_name ts)
     \<Longrightarrow> find_in ts name = Inr None"
proof (induction ts)
  case Nil
  then show ?case by simp
next
  case (Cons t ts)
  then obtain n where n: "entry_name t = Some n" by auto
  have ne: "n \<noteq> name" and rest: "name \<notin> set (List.map_filter entry_name ts)"
    using Cons.prems(2) n by (auto simp:)
  have all: "list_all (\<lambda>t. entry_name t \<noteq> None) ts" using Cons.prems(1) by simp
  have "find_in (t # ts) name = find_in ts name"
    using n ne by (simp add: entry_name_getitem)
  then show ?case using Cons.IH [OF all rest] by simp
qed

lemma find_in_present:
  "list_all (\<lambda>t. entry_name t \<noteq> None) ts \<Longrightarrow> name \<in> set (List.map_filter entry_name ts)
     \<Longrightarrow> \<exists>t. find_in ts name = Inr (Some t) \<and> py_truthy t"
proof (induction ts)
  case Nil
  then show ?case by (simp add:)
next
  case (Cons t ts)
  then obtain n where n: "entry_name t = Some n" by auto
  show ?case
  proof (cases "n = name")
    case True
    with n show ?thesis by (simp add: entry_name_getitem entry_name_truthy)
  next
    case False
    have rest: "name \<in> set (List.map_filter entry_name ts)"
      using Cons.prems(2) n False by (auto simp:)
    have all: "list_all (\<lambda>t. entry_name t \<noteq> None) ts" using Cons.prems(1) by simp
    have "find_in (t # ts) name = find_in ts name"
      using n False by (simp add: entry_name_getitem)
    then show ?thesis using Cons.IH [OF all rest] by simp
  qed
qed

lemma names_of_well_formed:
  "list_all (\<lambda>t. entry_name t \<noteq> None) ts
     \<Longrightarrow> names_of ts = Inr (map JStr (List.map_filter entry_name ts))"
proof (induction ts)
  case Nil
  then show ?case by (simp add:)
next
  case (Cons t ts)
  then obtain n where n: "entry_name t = Some n" by auto
  with Cons show ?case by (simp add: entry_name_getitem)
qed

lemma py_join_strings: "\<exists>r. py_join sep (map JStr xs) = Inr r"
proof (induction xs)
  case Nil
  then show ?case by simp
next
  case (Cons x xs)
  then obtain r where r: "py_join sep (map JStr xs) = Inr r" by auto
  then show ?case by (cases xs) auto
qed

lemma well_formed_catalogE:
  assumes "well_formed_catalog cat"
  obtains ts where "cat = JArr ts" and "list_all (\<lambda>t. entry_name t \<noteq> None) ts"
    and "catalog_names cat = List.map_filter entry_name ts"
  using assms by (cases cat) (auto simp: well_formed_catalog_def catalog_names_def)


lemma call_tool_absent:
  assumes "well_formed_catalog (tools_cache c)"
    and "name \<notin> set (catalog_names (tools_cache c))"
  shows "\<exists>joined. call_tool ev c name arguments pretty w =
           (case print_msg ev c (ToolNotFound name joined) w of
              Inl e \<Rightarrow> (Inl e, w)
            | Inr w1 \<Rightarrow> (Inr tool_not_found, w1))"
proof -
  from assms(1) obtain ts where ts: "tools_cache c = JArr ts"
      "list_all (\<lambda>t. entry_name t \<noteq> None) ts"
      "catalog_names (tools_cache c) = List.map_filter entry_name ts"
    by (rule well_formed_catalogE)
  have f: "find_tool c name = Inr None"
    using ts assms(2) by (simp add: find_tool_def find_in_absent)
  have g: "get_tool_names c = Inr (map JStr (List.map_filter entry_name ts))"
    using ts by (simp add: get_tool_names_def names_of_well_formed)
  obtain joined where j: "py_join '', '' (map JStr (List.map_filter entry_name ts)) = Inr joined"
    using py_join_strings by blast
  have "call_tool ev c name arguments pretty w =
           (case print_msg ev c (ToolNotFound name joined) w of
              Inl e \<Rightarrow> (Inl e, w)
            | Inr w1 \<Rightarrow> (Inr tool_not_found, w1))"
    using f g j by (simp add: call_tool_def)
  then show ?thesis by blast
qed


lemma call_tool_absent_local:
  assumes "well_formed_catalog (tools_cache c)"
    and "name \<notin> set (catalog_names (tools_cache c))"
    and "plain_output ev c"
  shows "fst (call_tool ev c name arguments pretty w) = Inr tool_not_found
     \<and> sent (snd (call_tool ev c name arguments pretty w)) = sent w"
  using call_tool_absent [OF assms(1,2), of ev arguments pretty w] assms(3)
  by (auto simp: print_msg_plain sent_say)






section \<open>Formatted output\<close>

text \<open>
  C8 at a result whose text is \<open>[/ 6 3]\<close>, with the rendering library in use and a
  console that refuses a closing tag: \<open>json.loads\<close> fails, the fallback prints a panel
  of the text, the console raises, and the exception leaves \<open>_format_pretty_result\<close>
  and \<open>call_tool\<close>, after the exchange with the server: the text is not shown and
  the caller gets an error. A text
  without a tag is shown as the claim says: of the texts \<open>6\<close> and \<open>(not json\<close>, the
  first is a highlighted panel of the parsed value and the second a panel of the text.
\<close>

theorem pretty_fallback_raises:
  "format_pretty_result (stub vector_server no_loads True)
      (init_client (stub vector_server no_loads True) ''u'' False) closing_tag_text init_world =
     (Inl MarkupError, init_world)
   \<and> fst (call_tool (stub vector_server no_loads True)
          ((init_client (stub vector_server no_loads True) ''u'' False)
             \<lparr>tools_cache := echo_tools\<rparr>)
          ''nrepl-status'' (JObj []) True init_world) = Inl MarkupError
   \<and> map rpc_method (sent (snd (call_tool (stub vector_server no_loads True)
          ((init_client (stub vector_server no_loads True) ''u'' False)
             \<lparr>tools_cache := echo_tools\<rparr>)
          ''nrepl-status'' (JObj []) True init_world))) = [''tools/call'']
   \<and> format_pretty_result (stub vector_server loads_six True)
      (init_client (stub vector_server loads_six True) ''u'' False) six_and_text init_world =
     (Inr (), \<lparr>sent = [],
               out = [PanelSyntax (JNum 6), PanelText (JStr ''(not json'')]\<rparr>)"
  by code_simp

text \<open>
  C8 at that result: the library is in use and the client has a console, so the
  formatted branch is the one taken, and it raises.
\<close>

theorem pretty_fallback_raises_witness:
  "HAS_RICH (stub vector_server no_loads True)
   \<and> console (init_client (stub vector_server no_loads True) ''u'' False)
   \<and> fst (format_pretty_result (stub vector_server no_loads True)
          (init_client (stub vector_server no_loads True) ''u'' False) closing_tag_text
          init_world) = Inl MarkupError"
  using pretty_fallback_raises by (simp add: stub_def init_client_def)

section \<open>Exit codes\<close>

text \<open>
  C7 at \<open>--tools\<close> against a server that answers \<open>initialize\<close> and times out on
  \<open>tools/list\<close>: \<open>list_tools\<close> reports "No tools available" and returns \<open>False\<close>,
  \<open>main\<close> drops that value and the process exits with 0. With \<open>--eval\<close> against the
  same server the exit code is 1.
\<close>

theorem tools_listing_failure_exits_zero:
  "exit_code (fst (main (stub no_tools_server no_loads False) tools_args init_world)) = Some 0
   \<and> Print NoToolsAvailable \<in>
       set (out (snd (main (stub no_tools_server no_loads False) tools_args init_world)))
   \<and> map rpc_method (sent (snd (main (stub no_tools_server no_loads False) tools_args init_world)))
       = [''initialize'', ''tools/list'', ''tools/list'']
   \<and> exit_code (fst (main (stub no_tools_server no_loads False) eval_args init_world)) = Some 1"
  by code_simp

section \<open>The scenario runner against the specification\<close>

lemma well_formed_resultE:
  assumes "well_formed_result r"
  obtains kvs where "r = JObj kvs"
  using assms by (cases r) (auto simp: well_formed_result_def)

lemma conforming_result: "conforming ev \<Longrightarrow> well_formed_result (unwrap (post ev log pl))"
  by (simp add: conforming_def)

lemma find_tool_present:
  assumes "well_formed_catalog (tools_cache c)"
    and "name \<in> set (catalog_names (tools_cache c))"
  shows "\<exists>t. find_tool c name = Inr (Some t) \<and> py_truthy t"
proof -
  from assms(1) obtain ts where ts: "tools_cache c = JArr ts"
      "list_all (\<lambda>t. entry_name t \<noteq> None) ts"
      "catalog_names (tools_cache c) = List.map_filter entry_name ts"
    by (rule well_formed_catalogE)
  show ?thesis using ts assms(2) find_in_present [of ts name] by (simp add: find_tool_def)
qed

lemma announce_plain:
  "plain_output ev c \<Longrightarrow>
     announce ev c name arguments w =
       (Inr (), if \<not> quiet c then
                  (let wi = say c (CallingTool name) w
                   in if py_truthy arguments then say c (Arguments arguments) wi else wi)
                else w)"
  by (simp add: announce_def print_msg_plain Let_def)

lemma call_tool_present:
  assumes "well_formed_catalog (tools_cache c)" and "conforming ev"
    and "name \<in> set (catalog_names (tools_cache c))" and "plain_output ev c"
  shows "fst (call_tool ev c name arguments False w) =
           Inr (unwrap (post ev (sent w) (call_payload name arguments)))"
    and "sent (snd (call_tool ev c name arguments False w)) =
           sent w @ [call_payload name arguments]"
    and "\<exists>xs. out (snd (call_tool ev c name arguments False w)) = out w @ xs
              \<and> (quiet c \<longrightarrow> xs = [])"
proof -
  obtain t where t: "find_tool c name = Inr (Some t)" "py_truthy t"
    using find_tool_present [OF assms(1,3)] by blast
  define r where "r = unwrap (post ev (sent w) (call_payload name arguments))"
  obtain kvs where kvs: "r = JObj kvs"
    using conforming_result [OF assms(2)] well_formed_resultE unfolding r_def by blast
  define w0 where "w0 = (if \<not> quiet c then
                         (let wi = say c (CallingTool name) w
                          in if py_truthy arguments then say c (Arguments arguments) wi
                             else wi)
                       else w)"
  have s0: "sent w0 = sent w" by (simp add: w0_def Let_def sent_say)
  have o0: "\<exists>xs. out w0 = out w @ xs \<and> (quiet c \<longrightarrow> xs = [])"
    by (simp add: w0_def Let_def out_say)
  have an: "announce ev c name arguments w = (Inr (), w0)"
    by (simp add: announce_plain [OF assms(4)] w0_def)
  have ct: "call_tool ev c name arguments False w =
     (case map_of kvs ''error'' of
        Some v \<Rightarrow> (Inr r, say c (ToolCallFailed v)
                     (w0\<lparr>sent := sent w @ [call_payload name arguments]\<rparr>))
      | None \<Rightarrow> if \<not> quiet c
                then (Inr r, emit (StdoutJson r) (w0\<lparr>sent := sent w @ [call_payload name arguments]\<rparr>))
                else (Inr r, w0\<lparr>sent := sent w @ [call_payload name arguments]\<rparr>))"
    using t kvs [unfolded r_def] s0
    by (simp add: call_tool_def an make_request_def Let_def call_payload_def
             print_msg_plain [OF assms(4)] r_def split: option.splits)
  show "fst (call_tool ev c name arguments False w) =
           Inr (unwrap (post ev (sent w) (call_payload name arguments)))"
    by (simp add: ct r_def [symmetric] split: option.splits)
  show "sent (snd (call_tool ev c name arguments False w)) =
           sent w @ [call_payload name arguments]"
    by (simp add: ct sent_say sent_emit split: option.splits)
  from o0 obtain xs where xs: "out w0 = out w @ xs" "quiet c \<longrightarrow> xs = []" by blast
  show "\<exists>xs. out (snd (call_tool ev c name arguments False w)) = out w @ xs
              \<and> (quiet c \<longrightarrow> xs = [])"
    using xs by (simp add: ct out_say out_emit split: option.splits)
qed










lemma conforming_scripted: "conforming (scripted three_replies)"
proof -
  have "well_formed_result (unwrap (post (scripted three_replies) log pl))" for log pl
  proof -
    consider "length log = 0" | "length log = 1" | "length log = 2" | "3 \<le> length log"
      by linarith
    then show ?thesis
      by cases
         (simp_all add: scripted_def three_replies_def unwrap_def six_def failed_text_def
            well_formed_result_def well_formed_content_def error_obj_def)
  qed
  then show ?thesis by (simp add: conforming_def)
qed



section \<open>History\<close>

lemma call_tool_returns:
  assumes "well_formed_catalog (tools_cache c)" and "conforming ev" and "plain_output ev c"
  shows "\<exists>r. fst (call_tool ev c name arguments False w) = Inr r"
  using call_tool_present(1) [OF assms(1,2) _ assms(3), of name arguments w]
        call_tool_absent_local [OF assms(1) _ assms(3), of name arguments False w]
  by (cases "name \<in> set (catalog_names (tools_cache c))") auto

text \<open>
  C3, as the code has it. Every \<open>eval_code\<close> that returns a result has appended the
  code as the last entry of the history, whatever the result is (a value, an error of
  the backend, a transport error, "Tool not found"); the history is unchanged only
  when the call raised. With a catalog of named operations, results of the protocol's
  shape and plain output, unformatted, the call always returns, so the code is always
  appended.
\<close>

theorem eval_code_history:
  "history (fst (snd (eval_code ev c code ns pretty w))) =
     (case fst (eval_code ev c code ns pretty w) of
        Inl e \<Rightarrow> history c
      | Inr result \<Rightarrow> history c @ [code])
   \<and> (well_formed_catalog (tools_cache c) \<longrightarrow> conforming ev \<longrightarrow> plain_output ev c \<longrightarrow>
        \<not> pretty \<longrightarrow>
        history (fst (snd (eval_code ev c code ns pretty w))) = history c @ [code])"
proof -
  have a: "history (fst (snd (eval_code ev c code ns pretty w))) =
     (case fst (eval_code ev c code ns pretty w) of
        Inl e \<Rightarrow> history c
      | Inr result \<Rightarrow> history c @ [code])"
    by (simp add: eval_code_def Let_def split: prod.splits sum.splits)
  have b: "history (fst (snd (eval_code ev c code ns False w))) = history c @ [code]"
    if wf: "well_formed_catalog (tools_cache c)" and cf: "conforming ev"
      and pl: "plain_output ev c"
  proof -
    define args where "args = JObj ((''code'', JStr code) #
           (case ns of None \<Rightarrow> [] | Some n \<Rightarrow> if n \<noteq> [] then [(''ns'', JStr n)] else []))"
    define w0 where "w0 = (if \<not> quiet c then say c (Evaluating code) w else w)"
    obtain r where r: "fst (call_tool ev c ''nrepl-eval'' args False w0) = Inr r"
      using call_tool_returns [OF wf cf pl] by blast
    obtain w1 where ct: "call_tool ev c ''nrepl-eval'' args False w0 = (Inr r, w1)"
      using r by (cases "call_tool ev c ''nrepl-eval'' args False w0") simp
    have pre: "(if \<not> quiet c then print_msg ev c (Evaluating code) w else Inr w) = Inr w0"
      by (simp add: w0_def print_msg_plain [OF pl])
    from ct show ?thesis
      by (simp add: eval_code_def Let_def args_def [symmetric] pre)
  qed
  show ?thesis using a b by (cases pretty) auto
qed

text \<open>C3 at an evaluation that the transport answers with \<open>6\<close>.\<close>

theorem eval_code_history_witness:
  "history (fst (snd (eval_code (scripted three_replies)
      ((init_client (scripted three_replies) ''u'' True)\<lparr>tools_cache := echo_tools\<rparr>)
      ''(+ 1 2 3)'' None False init_world))) = [''(+ 1 2 3)'']"
proof -
  have a: "well_formed_catalog (tools_cache
      ((init_client (scripted three_replies) ''u'' True)\<lparr>tools_cache := echo_tools\<rparr>))"
    by (simp add: well_formed_catalog_def echo_tools_def)
  have pl: "plain_output (scripted three_replies)
      ((init_client (scripted three_replies) ''u'' True)\<lparr>tools_cache := echo_tools\<rparr>)"
    by (simp add: plain_output_def init_client_def)
  have h: "history ((init_client (scripted three_replies) ''u'' True)
             \<lparr>tools_cache := echo_tools\<rparr>) = []"
    by (simp add: init_client_def)
  note t = eval_code_history [of "scripted three_replies"
            "(init_client (scripted three_replies) ''u'' True)\<lparr>tools_cache := echo_tools\<rparr>"
            "''(+ 1 2 3)''" None False init_world, THEN conjunct2, rule_format,
            OF a conforming_scripted pl]
  show ?thesis using t h by simp
qed

text \<open>
  C3 as stated fails: with an empty catalog the call ends in "Tool not found", and with
  \<open>nrepl-eval\<close> in the catalog and a transport that times out it ends in the transport
  error; the code is in the history both times.
\<close>

theorem eval_code_records_failures:
  "fst (eval_code (stub timeout_server no_loads False)
          (init_client (stub timeout_server no_loads False) ''u'' True)
          ''(+ 1 2 3)'' None False init_world) = Inr tool_not_found
   \<and> history (fst (snd (eval_code (stub timeout_server no_loads False)
          (init_client (stub timeout_server no_loads False) ''u'' True)
          ''(+ 1 2 3)'' None False init_world))) = [''(+ 1 2 3)'']
   \<and> fst (eval_code (stub timeout_server no_loads False)
          ((init_client (stub timeout_server no_loads False) ''u'' True)
             \<lparr>tools_cache := echo_tools\<rparr>)
          ''(+ 1 2 3)'' None False init_world) = Inr (error_obj (JStr ''timed out''))
   \<and> history (fst (snd (eval_code (stub timeout_server no_loads False)
          ((init_client (stub timeout_server no_loads False) ''u'' True)
             \<lparr>tools_cache := echo_tools\<rparr>)
          ''(+ 1 2 3)'' None False init_world))) = [''(+ 1 2 3)'']"
  by code_simp

end
